theory Spec2Isabelle
  imports Main
begin

section \<open>JavaScript values, property access and promises\<close>

text \<open>
  The two applications are Angular modules written in TypeScript. The only computation of
  their own is the \<open>loadChildren\<close> arrow function of the dashboard's route table:
  \<^verbatim>\<open>() => loadRemoteModule({...}).then((m) => m.AdminPanelModule)\<close>.
  Its value \<open>m\<close> has the TypeScript type \<open>any\<close>, so the values it may meet are modelled:
  \<open>undefined\<close>, \<open>null\<close>, a reference to a class, and an object with named properties
  (a module namespace object is one). Exported values are data: getters and
  thenables are outside the model.
\<close>

datatype js_error = TypeError | RemoteError string

datatype ng_class =
    DashboardAppModule | AdminAppModule | AdminPanelModule
  | BrowserModule | CommonModule | RouterModule

datatype js_value =
    JUndefined
  | JNull
  | JClass ng_class
  | JObject "string \<Rightarrow> js_value option"

text \<open>
  \<open>v.k\<close>: reading a property of \<open>undefined\<close> or \<open>null\<close> throws a TypeError; a property an
  object does not have reads as \<open>undefined\<close>. The classes of this repository have no
  static property.
\<close>

fun get_property :: "js_value \<Rightarrow> string \<Rightarrow> js_error + js_value" where
  "get_property JUndefined k = Inl TypeError"
| "get_property JNull k = Inl TypeError"
| "get_property (JClass c) k = Inr JUndefined"
| "get_property (JObject props) k = Inr (case props k of None \<Rightarrow> JUndefined | Some v \<Rightarrow> v)"

text \<open>
  A promise is observed in one of its three states. \<open>p.then(f)\<close> with a single
  callback: a pending promise stays pending, a rejection goes through untouched, and
  a fulfilled value is given to \<open>f\<close>, whose exception rejects the new promise.
\<close>

datatype 'a promise = Pending | Fulfilled 'a | Rejected js_error

fun promise_then :: "'a promise \<Rightarrow> ('a \<Rightarrow> js_error + 'b) \<Rightarrow> 'b promise" where
  "promise_then Pending f = Pending"
| "promise_then (Rejected e) f = Rejected e"
| "promise_then (Fulfilled v) f = (case f v of Inl e \<Rightarrow> Rejected e | Inr y \<Rightarrow> Fulfilled y)"

section \<open>The imported loader\<close>

text \<open>
  \<open>loadRemoteModule\<close> comes from the package \<open>@angular-architects/module-federation\<close>; the
  repository only calls it. It is a parameter of the model: a function from its
  options object and the state of the world \<open>'w\<close> (network, loaded scripts) to the
  promise it returns and the world after the call.
\<close>

record remote_options =
  remoteEntry :: string
  remoteName :: string
  exposedModule :: string

type_synonym 'w loader = "remote_options \<Rightarrow> 'w \<Rightarrow> js_value promise \<times> 'w"

text \<open>The same loader with every call written to a log, oldest call first.\<close>

definition logged :: "'w loader \<Rightarrow> ('w \<times> remote_options list) loader" where
  "logged lrm opts = (\<lambda>(w, calls).
     case lrm opts w of (p, w') \<Rightarrow> (p, (w', calls @ [opts])))"

section \<open>Routes and module metadata\<close>

datatype app = Dashboard | Admin

datatype component = AppComponent app | AdminPanelComponent

text \<open>The fields of Angular's \<open>Route\<close> that the two route tables set.\<close>

record 'w route =
  path :: string
  component :: "component option"
  loadChildren :: "('w loader \<Rightarrow> 'w \<Rightarrow> js_value promise \<times> 'w) option"

record extra_options =
  initialNavigation :: string

datatype 'w ng_import =
    ImportModule ng_class
  | RouterForRoot "'w route list" extra_options
  | RouterForChild "'w route list"

text \<open>The metadata object given to \<open>@NgModule\<close>.\<close>

record 'w ng_module =
  declarations :: "component list"
  ng_imports :: "'w ng_import list"
  providers :: "ng_class list"
  ng_exports :: "ng_class list"
  bootstrap :: "component list"

subsection \<open>apps/dashboard/src/app/app.module.ts\<close>

definition host_remote_options :: remote_options where
  "host_remote_options =
     \<lparr> remoteEntry = ''http://localhost:4201/remoteEntry.js'',
       remoteName = ''admin'',
       exposedModule = ''./Module'' \<rparr>"

definition loadChildren_admin_panel :: "'w loader \<Rightarrow> 'w \<Rightarrow> js_value promise \<times> 'w" where
  "loadChildren_admin_panel loadRemoteModule w =
     (case loadRemoteModule host_remote_options w of
        (p, w') \<Rightarrow> (promise_then p (\<lambda>m. get_property m ''AdminPanelModule''), w'))"

definition dashboard_routes :: "'w route list" where
  "dashboard_routes =
     [ \<lparr> path = ''admin-panel'',
         component = None,
         loadChildren = Some loadChildren_admin_panel \<rparr> ]"

definition dashboard_AppModule :: "'w ng_module" where
  "dashboard_AppModule =
     \<lparr> declarations = [AppComponent Dashboard],
       ng_imports = [ ImportModule BrowserModule,
                      RouterForRoot dashboard_routes \<lparr> initialNavigation = ''enabled'' \<rparr> ],
       providers = [],
       ng_exports = [],
       bootstrap = [AppComponent Dashboard] \<rparr>"

subsection \<open>apps/admin/src/app/admin-panel/admin-panel.module.ts\<close>

definition admin_panel_routes :: "'w route list" where
  "admin_panel_routes =
     [ \<lparr> path = '''',
         component = Some AdminPanelComponent,
         loadChildren = None \<rparr> ]"

definition AdminPanelModule_metadata :: "'w ng_module" where
  "AdminPanelModule_metadata =
     \<lparr> declarations = [AdminPanelComponent],
       ng_imports = [ImportModule CommonModule, RouterForChild admin_panel_routes],
       providers = [],
       ng_exports = [RouterModule],
       bootstrap = [] \<rparr>"

subsection \<open>apps/admin/src/app/app.module.ts\<close>

definition admin_AppModule :: "'w ng_module" where
  "admin_AppModule =
     \<lparr> declarations = [AppComponent Admin],
       ng_imports = [ ImportModule BrowserModule,
                      RouterForRoot [] \<lparr> initialNavigation = ''enabled'' \<rparr>,
                      ImportModule AdminPanelModule ],
       providers = [],
       ng_exports = [],
       bootstrap = [AppComponent Admin] \<rparr>"

subsection \<open>The decorated classes\<close>

text \<open>
  The decorator attaches the metadata to the class. The three framework modules
  are imported by name only; they register no route.
\<close>

fun ng_module_def :: "ng_class \<Rightarrow> 'w ng_module option" where
  "ng_module_def DashboardAppModule = Some dashboard_AppModule"
| "ng_module_def AdminAppModule = Some admin_AppModule"
| "ng_module_def AdminPanelModule = Some AdminPanelModule_metadata"
| "ng_module_def BrowserModule = None"
| "ng_module_def CommonModule = None"
| "ng_module_def RouterModule = None"

text \<open>
  What each source file exports, as its module namespace object: each of the three
  module files exports its class and nothing else.
\<close>

definition dashboard_app_module_ts :: string where
  "dashboard_app_module_ts = ''./apps/dashboard/src/app/app.module.ts''"

definition admin_app_module_ts :: string where
  "admin_app_module_ts = ''./apps/admin/src/app/app.module.ts''"

definition admin_panel_module_ts :: string where
  "admin_panel_module_ts = ''./apps/admin/src/app/admin-panel/admin-panel.module.ts''"

definition source_exports :: "string \<Rightarrow> string \<Rightarrow> js_value option" where
  "source_exports file =
     (if file = dashboard_app_module_ts then [''AppModule'' \<mapsto> JClass DashboardAppModule]
      else if file = admin_app_module_ts then [''AppModule'' \<mapsto> JClass AdminAppModule]
      else if file = admin_panel_module_ts then [''AdminPanelModule'' \<mapsto> JClass AdminPanelModule]
      else Map.empty)"

section \<open>Build and serve configuration\<close>

text \<open>
  From the README: the two \<open>ng add ... --project P --port N\<close> commands, the
  \<open>ModuleFederationPlugin\<close> options of \<open>apps/admin/webpack.config.js\<close> and the
  \<open>remotes\<close> of the dashboard's webpack configuration. The \<open>shared\<close> section of the
  plugin options (which packages are singletons) plays no part in what follows and is
  left out.
\<close>

definition dev_servers :: "(app \<times> nat) list" where
  "dev_servers = [(Dashboard, 4200), (Admin, 4201)]"

record federation_plugin =
  name :: string
  filename :: string
  exposes :: "(string \<times> string) list"

definition admin_federation :: federation_plugin where
  "admin_federation =
     \<lparr> name = ''admin'',
       filename = ''remoteEntry.js'',
       exposes = [(''./Module'', ''./apps/admin/src/app/admin-panel/admin-panel.module.ts'')] \<rparr>"

definition dashboard_remotes :: "(string \<times> string) list" where
  "dashboard_remotes = [(''admin'', ''admin@http://localhost:4201/remoteEntry.js'')]"

text \<open>A remote is written \<open>name@url\<close>.\<close>

definition remote_url :: "string \<Rightarrow> string" where
  "remote_url s = drop 1 (dropWhile (\<lambda>c. c \<noteq> CHR ''@'') s)"

definition remote_container :: "string \<Rightarrow> string" where
  "remote_container s = takeWhile (\<lambda>c. c \<noteq> CHR ''@'') s"

fun decimal :: "nat \<Rightarrow> string" where
  "decimal n =
     (if n < 10 then [''0123456789'' ! n]
      else decimal (n div 10) @ [''0123456789'' ! (n mod 10)])"

declare decimal.simps [simp del]

definition dev_server_url :: "nat \<Rightarrow> string" where
  "dev_server_url port = ''http://localhost:'' @ decimal port"

text \<open>Every remote entry URL written in the dashboard's sources and configuration.\<close>

definition host_remote_entry_urls :: "string list" where
  "host_remote_entry_urls =
     remoteEntry host_remote_options # map (remote_url \<circ> snd) dashboard_remotes"

text \<open>What the admin build offers a host: for each exposed key, the namespace of its file.\<close>

definition admin_exposed :: "string \<Rightarrow> js_value option" where
  "admin_exposed key =
     map_option (\<lambda>file. JObject (source_exports file)) (map_of (exposes admin_federation) key)"

section \<open>Module federation at run time\<close>

text \<open>
  A loader for the examples: the world is what each URL serves, a container with its
  name and its exposed modules. The load fails when nothing is served at the URL,
  when the container there has another name, and when it does not expose the key.
\<close>

record container =
  container_name :: string
  container_get :: "string \<Rightarrow> js_value option"

type_synonym network = "string \<Rightarrow> container option"

definition federation_loader :: "network loader" where
  "federation_loader opts net =
     (case net (remoteEntry opts) of
        None \<Rightarrow> (Rejected (RemoteError ''unreachable''), net)
      | Some c \<Rightarrow>
          if container_name c \<noteq> remoteName opts
          then (Rejected (RemoteError ''no such container''), net)
          else (case container_get c (exposedModule opts) of
                  None \<Rightarrow> (Rejected (RemoteError ''not exposed''), net)
                | Some m \<Rightarrow> (Fulfilled m, net)))"

definition admin_container :: container where
  "admin_container =
     \<lparr> container_name = name admin_federation, container_get = admin_exposed \<rparr>"

text \<open>Both applications served as the README runs them; nothing served at all.\<close>

definition dev_network :: network where
  "dev_network =
     [dev_server_url 4201 @ ''/'' @ filename admin_federation \<mapsto> admin_container]"

definition offline :: network where
  "offline = Map.empty"

text \<open>
  A network where the admin build at the expected URL exports its module under
  another name.
\<close>

definition renamed_network :: network where
  "renamed_network =
     [''http://localhost:4201/remoteEntry.js'' \<mapsto>
        \<lparr> container_name = ''admin'',
          container_get = [''./Module'' \<mapsto> JObject [''AdminModule'' \<mapsto> JClass AdminPanelModule]] \<rparr>]"

text \<open>A loader that fails on its first call and would succeed on a second one.\<close>

definition flaky_loader :: "nat loader" where
  "flaky_loader opts n =
     (if n = 0 then (Rejected (RemoteError ''unreachable''), Suc n)
      else (Fulfilled (JObject (source_exports admin_panel_module_ts)), Suc n))"

text \<open>A loader whose promise never settles.\<close>

definition stalled_loader :: "unit loader" where
  "stalled_loader opts u = (Pending, u)"

section \<open>The router\<close>

text \<open>
  The router belongs to the framework. What the claims need of it: the route table of
  an application is what its root module and the modules it imports register with
  \<open>forRoot\<close> and \<open>forChild\<close>, in the order of the imports; a URL, given as its path
  segments, is matched against the table in order, a route's path as a prefix of the
  segments; a route with \<open>loadChildren\<close> calls it and goes on in the routes of the
  module the promise fulfils with; the router keeps those routes on its entry and
  does not load them a second time; an application starts by creating its
  \<open>bootstrap\<close> components and, unless \<open>initialNavigation\<close> says otherwise, by
  navigating to the URL it is opened on. The two tables use literal paths only.
\<close>

fun split_path :: "string \<Rightarrow> string list" where
  "split_path [] = [[]]"
| "split_path (c # cs) =
     (if c = CHR ''/'' then [] # split_path cs
      else (case split_path cs of [] \<Rightarrow> [[c]] | p # ps \<Rightarrow> (c # p) # ps))"

definition match_path :: "string \<Rightarrow> string list \<Rightarrow> string list option" where
  "match_path p segs =
     (if p = [] then Some segs
      else if take (length (split_path p)) segs = split_path p
           then Some (drop (length (split_path p)) segs)
           else None)"

text \<open>
  The arguments of every \<open>RouterModule.forRoot\<close> call among a module's imports.
\<close>

fun forRoot_arguments :: "'w ng_import \<Rightarrow> ('w route list \<times> extra_options) option" where
  "forRoot_arguments (RouterForRoot rs opts) = Some (rs, opts)"
| "forRoot_arguments (ImportModule c) = None"
| "forRoot_arguments (RouterForChild rs) = None"

definition forRoot_calls :: "'w ng_module \<Rightarrow> ('w route list \<times> extra_options) list" where
  "forRoot_calls m = List.map_filter forRoot_arguments (ng_imports m)"

text \<open>
  The routes an import brings, in the order of the imports, following imported
  modules \<open>d\<close> levels down. Modules cannot import each other in a cycle, so no chain
  of imports is longer than the number of classes.
\<close>

fun routes_upto :: "nat \<Rightarrow> 'w ng_import \<Rightarrow> 'w route list" where
  "routes_upto d (RouterForRoot rs opts) = rs"
| "routes_upto d (RouterForChild rs) = rs"
| "routes_upto 0 (ImportModule c) = []"
| "routes_upto (Suc d) (ImportModule c) =
     (case ng_module_def c of
        None \<Rightarrow> []
      | Some m \<Rightarrow> concat (map (routes_upto d) (ng_imports m)))"

definition import_depth :: nat where
  "import_depth = 6"

definition router_config :: "'w ng_module \<Rightarrow> 'w route list" where
  "router_config m = concat (map (routes_upto import_depth) (ng_imports m))"

definition routes_of_class :: "ng_class \<Rightarrow> 'w route list" where
  "routes_of_class c = (case ng_module_def c of None \<Rightarrow> [] | Some m \<Rightarrow> router_config m)"

datatype nav_result =
    Activated "component list"
  | NoMatch
  | Failed js_error
  | Unsettled
  | OutOfFuel

text \<open>
  \<open>recognize n\<close> matches a URL against a table of which nothing has been loaded yet,
  following at most \<open>n\<close> nested lazy routes. The result lists the components put
  into the nested outlets, outermost first.
\<close>

fun recognize ::
  "nat \<Rightarrow> 'w loader \<Rightarrow> 'w route list \<Rightarrow> string list \<Rightarrow> 'w \<Rightarrow> nav_result \<times> 'w" where
  "recognize n lrm [] segs w = ((if segs = [] then Activated [] else NoMatch), w)"
| "recognize n lrm (r # rs) segs w =
     (case match_path (path r) segs of
        None \<Rightarrow> recognize n lrm rs segs w
      | Some rest \<Rightarrow>
          (case loadChildren r of
             None \<Rightarrow>
               if rest = [] then (Activated (case component r of None \<Rightarrow> [] | Some cmp \<Rightarrow> [cmp]), w)
               else recognize n lrm rs segs w
           | Some load \<Rightarrow>
               (case n of
                  0 \<Rightarrow> (OutOfFuel, w)
                | Suc k \<Rightarrow>
                    (case load lrm w of
                       (Pending, w') \<Rightarrow> (Unsettled, w')
                     | (Rejected e, w') \<Rightarrow> (Failed e, w')
                     | (Fulfilled (JClass c), w') \<Rightarrow>
                         (case recognize k lrm (routes_of_class c) rest w' of
                            (Activated cs, w'') \<Rightarrow>
                              (Activated ((case component r of None \<Rightarrow> [] | Some cmp \<Rightarrow> [cmp]) @ cs), w'')
                          | (NoMatch, w'') \<Rightarrow> recognize n lrm rs segs w''
                          | other \<Rightarrow> other)
                     | (Fulfilled v, w') \<Rightarrow> (Failed TypeError, w')))))"

text \<open>
  The running router keeps an entry of its own for each route: the route as it was
  declared and, once a lazy route has loaded, the entries of the loaded module
  (Angular's \<open>_loadedConfig\<close>), which later navigations use without loading again.
\<close>

datatype 'w entry = Entry (declared: "'w route") (loaded: "'w entry list option")

definition fresh :: "'w route \<Rightarrow> 'w entry" where
  "fresh r = Entry r None"

text \<open>
  The child routes of a lazy entry: the stored ones when there are any, else what
  \<open>loadChildren\<close> resolves with.
\<close>

fun child_config ::
  "'w loader \<Rightarrow> ('w loader \<Rightarrow> 'w \<Rightarrow> js_value promise \<times> 'w) \<Rightarrow> 'w entry list option \<Rightarrow> 'w \<Rightarrow>
     (nav_result + 'w entry list) \<times> 'w" where
  "child_config lrm load (Some children) w = (Inr children, w)"
| "child_config lrm load None w =
     (case load lrm w of
        (Pending, w') \<Rightarrow> (Inl Unsettled, w')
      | (Rejected e, w') \<Rightarrow> (Inl (Failed e), w')
      | (Fulfilled (JClass c), w') \<Rightarrow> (Inr (map fresh (routes_of_class c)), w')
      | (Fulfilled v, w') \<Rightarrow> (Inl (Failed TypeError), w'))"

text \<open>
  \<open>activate\<close> is \<open>recognize\<close> on the router's entries: it also returns the entries as
  the navigation leaves them. A lazy entry keeps the children it has loaded whether
  or not the rest of the URL matches among them.
\<close>

fun activate ::
  "nat \<Rightarrow> 'w loader \<Rightarrow> 'w entry list \<Rightarrow> string list \<Rightarrow> 'w \<Rightarrow>
     nav_result \<times> 'w entry list \<times> 'w" where
  "activate n lrm [] segs w = ((if segs = [] then Activated [] else NoMatch), [], w)"
| "activate n lrm (Entry r cache # es) segs w =
     (case match_path (path r) segs of
        None \<Rightarrow>
          (case activate n lrm es segs w of (res, es', w') \<Rightarrow> (res, Entry r cache # es', w'))
      | Some rest \<Rightarrow>
          (case loadChildren r of
             None \<Rightarrow>
               if rest = []
               then (Activated (case component r of None \<Rightarrow> [] | Some cmp \<Rightarrow> [cmp]),
                     Entry r cache # es, w)
               else (case activate n lrm es segs w of
                       (res, es', w') \<Rightarrow> (res, Entry r cache # es', w'))
           | Some load \<Rightarrow>
               (case n of
                  0 \<Rightarrow> (OutOfFuel, Entry r cache # es, w)
                | Suc k \<Rightarrow>
                    (case child_config lrm load cache w of
                       (Inl failure, w') \<Rightarrow> (failure, Entry r cache # es, w')
                     | (Inr children, w') \<Rightarrow>
                         (case activate k lrm children rest w' of
                            (Activated cs, children', w'') \<Rightarrow>
                              (Activated ((case component r of None \<Rightarrow> [] | Some cmp \<Rightarrow> [cmp]) @ cs),
                               Entry r (Some children') # es, w'')
                          | (NoMatch, children', w'') \<Rightarrow>
                              (case activate n lrm es segs w'' of
                                 (res, es', w3) \<Rightarrow> (res, Entry r (Some children') # es', w3))
                          | (other, children', w'') \<Rightarrow>
                              (other, Entry r (Some children') # es, w''))))))"


text \<open>
  A running application: the router's entries, the components created at bootstrap,
  what the outlets show, the outcome of the last navigation, and the world. A
  navigation that does not activate a route leaves the outlets as they are.
\<close>

record 'w running =
  config :: "'w entry list"
  bootstrapped :: "component list"
  outlets :: "component list"
  last_navigation :: "nav_result option"
  world :: 'w

definition navigate :: "nat \<Rightarrow> 'w loader \<Rightarrow> 'w running \<Rightarrow> string list \<Rightarrow> 'w running" where
  "navigate n lrm s url =
     (case activate n lrm (config s) url (world s) of
        (Activated cs, es, w') \<Rightarrow>
          s \<lparr> config := es, outlets := cs, last_navigation := Some (Activated cs), world := w' \<rparr>
      | (r, es, w') \<Rightarrow> s \<lparr> config := es, last_navigation := Some r, world := w' \<rparr>)"

definition navigations :: "nat \<Rightarrow> 'w loader \<Rightarrow> 'w running \<Rightarrow> string list list \<Rightarrow> 'w running" where
  "navigations n lrm s urls = foldl (navigate n lrm) s urls"

text \<open>
  Starting an application on a URL: the router takes its table from the root module,
  the components of \<open>bootstrap\<close> are created, and unless \<open>initialNavigation\<close> switches it
  off the router navigates to the URL the application was opened on.
\<close>

definition initial_navigation_enabled :: "extra_options \<Rightarrow> bool" where
  "initial_navigation_enabled opts =
     (initialNavigation opts \<in> set [''enabled'', ''enabledBlocking'', ''enabledNonBlocking''])"

definition created :: "'w ng_module \<Rightarrow> 'w \<Rightarrow> 'w running" where
  "created m w =
     \<lparr> config = map fresh (router_config m), bootstrapped = bootstrap m, outlets = [],
       last_navigation = None, world = w \<rparr>"

definition start :: "nat \<Rightarrow> 'w loader \<Rightarrow> 'w ng_module \<Rightarrow> string list \<Rightarrow> 'w \<Rightarrow> 'w running" where
  "start n lrm m url w =
     (if list_ex (\<lambda>call. initial_navigation_enabled (snd call)) (forRoot_calls m)
      then navigate n lrm (created m w) url
      else created m w)"

section \<open>The loader and the route tables, unfolded\<close>

lemma source_exports_admin_panel:
  "source_exports admin_panel_module_ts = [''AdminPanelModule'' \<mapsto> JClass AdminPanelModule]"
  by (simp add: source_exports_def admin_panel_module_ts_def admin_app_module_ts_def
      dashboard_app_module_ts_def)

lemma loadChildren_admin_panel_unfold:
  "loadChildren_admin_panel lrm w =
     (promise_then (fst (lrm host_remote_options w)) (\<lambda>m. get_property m ''AdminPanelModule''),
      snd (lrm host_remote_options w))"
  by (simp add: loadChildren_admin_panel_def case_prod_beta)

lemma logged_unfold:
  "logged lrm opts (w, calls) = (fst (lrm opts w), (snd (lrm opts w), calls @ [opts]))"
  by (simp add: logged_def case_prod_beta)

lemma router_config_dashboard: "router_config dashboard_AppModule = dashboard_routes"
  by (simp add: router_config_def dashboard_AppModule_def import_depth_def eval_nat_numeral)

lemma router_config_admin_panel: "router_config AdminPanelModule_metadata = admin_panel_routes"
  by (simp add: router_config_def AdminPanelModule_metadata_def import_depth_def eval_nat_numeral)

lemma router_config_admin: "router_config admin_AppModule = admin_panel_routes"
  by (simp add: router_config_def admin_AppModule_def AdminPanelModule_metadata_def
      import_depth_def eval_nat_numeral)

lemma routes_of_class_cases:
  "routes_of_class c =
     (case c of
        DashboardAppModule \<Rightarrow> dashboard_routes
      | AdminAppModule \<Rightarrow> admin_panel_routes
      | AdminPanelModule \<Rightarrow> admin_panel_routes
      | _ \<Rightarrow> [])"
  by (cases c)
     (simp_all add: routes_of_class_def router_config_dashboard router_config_admin
        router_config_admin_panel)

text \<open>Following imports deeper than \<open>import_depth\<close> finds no further route.\<close>

lemma routes_upto_deeper:
  "routes_upto (import_depth + k) (ImportModule c) = routes_upto import_depth (ImportModule c)"
  by (cases c)
     (simp_all add: import_depth_def eval_nat_numeral dashboard_AppModule_def admin_AppModule_def
        AdminPanelModule_metadata_def)

lemma match_admin_panel_empty: "match_path ''admin-panel'' [] = None"
  by (simp add: match_path_def)

lemma match_admin_panel: "match_path ''admin-panel'' (''admin-panel'' # rest) = Some rest"
  by (simp add: match_path_def)

lemma match_empty_path: "match_path [] segs = Some segs"
  by (simp add: match_path_def)

lemma recognize_admin_panel_routes:
  "recognize n lrm admin_panel_routes segs w =
     ((if segs = [] then Activated [AdminPanelComponent] else NoMatch), w)"
  by (simp add: admin_panel_routes_def match_empty_path)

lemma recognize_dashboard_empty:
  "recognize n lrm dashboard_routes [] w = (Activated [], w)"
  by (simp add: dashboard_routes_def match_admin_panel_empty)

lemma recognize_loaded_empty:
  "recognize n lrm (routes_of_class c) [] w =
     (Activated (if c = AdminAppModule \<or> c = AdminPanelModule then [AdminPanelComponent] else []), w)"
  by (cases c)
     (simp_all add: routes_of_class_cases recognize_admin_panel_routes recognize_dashboard_empty)

lemma recognize_host:
  "recognize (Suc n) lrm dashboard_routes [''admin-panel''] w =
     (case fst (loadChildren_admin_panel lrm w) of
        Pending \<Rightarrow> (Unsettled, snd (loadChildren_admin_panel lrm w))
      | Rejected e \<Rightarrow> (Failed e, snd (loadChildren_admin_panel lrm w))
      | Fulfilled v \<Rightarrow>
          (case v of
             JClass c \<Rightarrow>
               (Activated (if c = AdminAppModule \<or> c = AdminPanelModule
                           then [AdminPanelComponent] else []),
                snd (loadChildren_admin_panel lrm w))
           | _ \<Rightarrow> (Failed TypeError, snd (loadChildren_admin_panel lrm w))))"
proof (cases "loadChildren_admin_panel lrm w")
  case (Pair p w')
  then show ?thesis
    by (simp add: dashboard_routes_def match_admin_panel recognize_loaded_empty
        split: promise.splits js_value.splits)
qed

lemma recognize_host_world:
  "snd (recognize (Suc n) lrm dashboard_routes [''admin-panel''] w) =
     snd (lrm host_remote_options w)"
  by (simp add: recognize_host split: promise.splits js_value.splits)
     (simp add: loadChildren_admin_panel_unfold)

lemma dev_network_serves_admin:
  "federation_loader host_remote_options dev_network =
     (Fulfilled (JObject (source_exports admin_panel_module_ts)), dev_network)"
  by (simp add: federation_loader_def dev_network_def host_remote_options_def dev_server_url_def
      decimal.simps admin_federation_def admin_container_def admin_exposed_def
      admin_panel_module_ts_def)

lemma activate_fresh_step:
  "activate n lrm (fresh r # es) segs w = activate n lrm (Entry r None # es) segs w"
  by (simp only: fresh_def)



lemma activate_fresh:
  "fst (activate n lrm (map fresh rs) segs w) = fst (recognize n lrm rs segs w) \<and>
   snd (snd (activate n lrm (map fresh rs) segs w)) = snd (recognize n lrm rs segs w)"
proof (induction n lrm rs segs w rule: recognize.induct)
  case (1 n lrm segs w)
  show ?case by simp
next
  case (2 n lrm r rs segs w)
  show ?case
  proof (cases "match_path (path r) segs")
    case None
    with "2.IH"(1) show ?thesis by (simp add: activate_fresh_step case_prod_beta)
  next
    case matched: (Some rest)
    show ?thesis
    proof (cases "loadChildren r")
      case None
      with matched "2.IH"(2) show ?thesis by (simp add: activate_fresh_step case_prod_beta)
    next
      case lazy: (Some load)
      show ?thesis
      proof (cases n)
        case 0
        with matched lazy show ?thesis by (simp add: activate_fresh_step)
      next
        case (Suc k)
        obtain p w' where ld: "load lrm w = (p, w')"
          by (cases "load lrm w")
        show ?thesis
        proof (cases p)
          case Pending
          with matched lazy Suc ld show ?thesis by (simp add: activate_fresh_step)
        next
          case (Rejected e)
          with matched lazy Suc ld show ?thesis by (simp add: activate_fresh_step)
        next
          case (Fulfilled v)
          show ?thesis
          proof (cases "\<exists>c. v = JClass c")
            case False
            with matched lazy Suc ld Fulfilled show ?thesis
              by (cases v) (simp_all add: activate_fresh_step)
          next
            case True
            then obtain c where v: "v = JClass c" by blast
            obtain res w'' where rec: "recognize k lrm (routes_of_class c) rest w' = (res, w'')"
              by (cases "recognize k lrm (routes_of_class c) rest w'")
            have child: "fst (activate k lrm (map fresh (routes_of_class c)) rest w') = res \<and>
                snd (snd (activate k lrm (map fresh (routes_of_class c)) rest w')) = w''"
              using "2.IH"(3) [OF matched lazy Suc ld [symmetric] Fulfilled v] rec by simp
            then obtain children' where act:
              "activate k lrm (map fresh (routes_of_class c)) rest w' = (res, children', w'')"
              by (cases "activate k lrm (map fresh (routes_of_class c)) rest w'") auto
            show ?thesis
            proof (cases "res = NoMatch")
              case True
              have "fst (activate n lrm (map fresh rs) segs w'') = fst (recognize n lrm rs segs w'') \<and>
                  snd (snd (activate n lrm (map fresh rs) segs w'')) = snd (recognize n lrm rs segs w'')"
                using "2.IH"(4) [OF matched lazy Suc ld [symmetric] Fulfilled v rec [symmetric] True] .
              with matched lazy Suc ld Fulfilled v rec act True show ?thesis
                by (simp add: activate_fresh_step case_prod_beta)
            next
              case False
              with matched lazy Suc ld Fulfilled v rec act show ?thesis
                by (cases res) (simp_all add: activate_fresh_step)
            qed
          qed
        qed
      qed
    qed
  qed
qed









lemma navigate_world:
  "world (navigate n lrm s url) = snd (snd (activate n lrm (config s) url (world s)))"
  by (simp add: navigate_def split: prod.splits nav_result.splits)

lemma navigate_last:
  "last_navigation (navigate n lrm s url) = Some (fst (activate n lrm (config s) url (world s)))"
  by (simp add: navigate_def split: prod.splits nav_result.splits)

lemma navigate_bootstrapped: "bootstrapped (navigate n lrm s url) = bootstrapped s"
  by (simp add: navigate_def split: prod.splits nav_result.splits)

lemma navigate_outlets:
  "outlets (navigate n lrm s url) =
     (case fst (activate n lrm (config s) url (world s)) of
        Activated cs \<Rightarrow> cs
      | _ \<Rightarrow> outlets s)"
  by (simp add: navigate_def split: prod.splits nav_result.splits)



lemma start_dashboard:
  "start n lrm dashboard_AppModule url w = navigate n lrm (created dashboard_AppModule w) url"
  by (simp add: start_def forRoot_calls_def List.map_filter_def dashboard_AppModule_def
      initial_navigation_enabled_def)

lemma start_admin:
  "start n lrm admin_AppModule url w = navigate n lrm (created admin_AppModule w) url"
  by (simp add: start_def forRoot_calls_def List.map_filter_def admin_AppModule_def
      initial_navigation_enabled_def)

text \<open>With \<open>initialNavigation: 'disabled'\<close> the application starts without navigating.\<close>

lemma start_disabled:
  "forRoot_calls m = [(rs, \<lparr> initialNavigation = ''disabled'' \<rparr>)] \<Longrightarrow>
   start n lrm m url w = created m w"
  by (simp add: start_def initial_navigation_enabled_def)

lemma created_dashboard:
  "created dashboard_AppModule w =
     \<lparr> config = map fresh dashboard_routes, bootstrapped = [AppComponent Dashboard],
       outlets = [], last_navigation = None, world = w \<rparr>"
  by (simp add: created_def router_config_dashboard) (simp add: dashboard_AppModule_def)

lemma created_admin:
  "created admin_AppModule w =
     \<lparr> config = map fresh admin_panel_routes, bootstrapped = [AppComponent Admin],
       outlets = [], last_navigation = None, world = w \<rparr>"
  by (simp add: created_def router_config_admin) (simp add: admin_AppModule_def)

lemma activate_admin_panel_routes:
  "activate n lrm (map fresh admin_panel_routes) segs w =
     ((if segs = [] then Activated [AdminPanelComponent] else NoMatch),
      map fresh admin_panel_routes, w)"
  by (simp add: admin_panel_routes_def fresh_def match_empty_path)

lemma activate_dashboard_root:
  "activate n lrm (map fresh dashboard_routes) [] w = (Activated [], map fresh dashboard_routes, w)"
  by (simp add: dashboard_routes_def fresh_def match_admin_panel_empty)

lemma start_dashboard_root:
  "start n lrm dashboard_AppModule [] w =
     \<lparr> config = map fresh dashboard_routes, bootstrapped = [AppComponent Dashboard],
       outlets = [], last_navigation = Some (Activated []), world = w \<rparr>"
  by (simp add: start_dashboard created_dashboard navigate_def activate_dashboard_root)



text \<open>
  Three navigations of the dashboard, to \<open>admin-panel\<close>, back to the root and to
  \<open>admin-panel\<close> again: the remote module is loaded once.
\<close>

lemma loaded_module_is_reused:
  "snd (world (navigations 1 (logged federation_loader)
          (start 1 (logged federation_loader) dashboard_AppModule [] (dev_network, []))
          [[''admin-panel''], [], [''admin-panel'']])) = [host_remote_options]"
  by (simp add: navigations_def start_dashboard_root navigate_def dashboard_routes_def fresh_def
      match_admin_panel match_admin_panel_empty loadChildren_admin_panel_unfold logged_unfold
      dev_network_serves_admin source_exports_admin_panel routes_of_class_cases
      admin_panel_routes_def match_empty_path)

section \<open>The claims\<close>

text \<open>
  C1. The host's route table has exactly one route, its path is \<open>admin-panel\<close>, and a
  navigation to that path calls \<open>loadRemoteModule\<close> exactly once, with the remote entry
  \<open>http://localhost:4201/remoteEntry.js\<close>, the remote name \<open>admin\<close> and the exposed
  module \<open>./Module\<close>: whatever the loader does, the log of its calls after the
  navigation holds that one call.
\<close>

theorem host_route_table_single_lazy_route:
  "length (dashboard_routes :: ('w \<times> remote_options list) route list) = 1 \<and>
   map path (dashboard_routes :: ('w \<times> remote_options list) route list) = [''admin-panel''] \<and>
   snd (snd (recognize (Suc n) (logged lrm) dashboard_routes [''admin-panel''] (w, []))) =
     [\<lparr> remoteEntry = ''http://localhost:4201/remoteEntry.js'',
        remoteName = ''admin'',
        exposedModule = ''./Module'' \<rparr>]"
proof -
  have "snd (snd (recognize (Suc n) (logged lrm) dashboard_routes [''admin-panel''] (w, []))) =
          [host_remote_options]"
    by (simp add: recognize_host_world logged_unfold)
  then show ?thesis
    by (simp add: dashboard_routes_def host_remote_options_def)
qed

text \<open>
  C2. When the load of the remote module fails, the promise of \<open>loadChildren\<close> is
  rejected with the very reason of the failure (no catch handler, no fallback value),
  the loader has been called once (no retry), and the navigation fails with that
  reason. A load that never settles leaves the promise pending (no timeout).
\<close>

theorem load_failure_propagates:
  "(fst (lrm host_remote_options w) = Rejected e \<longrightarrow>
      fst (loadChildren_admin_panel lrm w) = Rejected e \<and>
      snd (loadChildren_admin_panel (logged lrm) (w, [])) =
        (snd (lrm host_remote_options w), [host_remote_options]) \<and>
      fst (recognize (Suc n) lrm dashboard_routes [''admin-panel''] w) = Failed e) \<and>
   (fst (lrm0 host_remote_options w0) = Pending \<longrightarrow>
      fst (loadChildren_admin_panel lrm0 w0) = Pending \<and>
      fst (recognize (Suc n) lrm0 dashboard_routes [''admin-panel''] w0) = Unsettled)"
  by (simp add: recognize_host loadChildren_admin_panel_unfold logged_unfold)

theorem load_failure_propagates_witness:
  "fst (flaky_loader host_remote_options 0) = Rejected (RemoteError ''unreachable'') \<and>
   fst (loadChildren_admin_panel flaky_loader 0) = Rejected (RemoteError ''unreachable'') \<and>
   snd (loadChildren_admin_panel (logged flaky_loader) (0, [])) = (1, [host_remote_options]) \<and>
   fst (recognize 1 flaky_loader dashboard_routes [''admin-panel''] 0) =
     Failed (RemoteError ''unreachable'') \<and>
   fst (flaky_loader host_remote_options 1) = Fulfilled (JObject (source_exports admin_panel_module_ts)) \<and>
   fst (stalled_loader host_remote_options ()) = Pending \<and>
   fst (loadChildren_admin_panel stalled_loader ()) = Pending \<and>
   fst (recognize 1 stalled_loader dashboard_routes [''admin-panel''] ()) = Unsettled \<and>
   fst (federation_loader host_remote_options offline) = Rejected (RemoteError ''unreachable'') \<and>
   fst (loadChildren_admin_panel federation_loader offline) = Rejected (RemoteError ''unreachable'')"
proof -
  have unreachable: "fst (federation_loader host_remote_options offline) =
      Rejected (RemoteError ''unreachable'')"
    by (simp add: federation_loader_def offline_def)
  have rejected: "fst (flaky_loader host_remote_options 0) = Rejected (RemoteError ''unreachable'')"
    by (simp add: flaky_loader_def)
  have pending: "fst (stalled_loader host_remote_options ()) = Pending"
    by (simp add: stalled_loader_def)
  have later: "fst (flaky_loader host_remote_options 1) =
      Fulfilled (JObject (source_exports admin_panel_module_ts))"
    by (simp add: flaky_loader_def)
  have after: "snd (flaky_loader host_remote_options 0) = 1"
    by (simp add: flaky_loader_def)
  show ?thesis
    using load_failure_propagates [of flaky_loader 0 "RemoteError ''unreachable''" 0
        stalled_loader "()"]
      load_failure_propagates [of federation_loader offline "RemoteError ''unreachable''" 0
        stalled_loader "()"]
      rejected pending later after unreachable
    by simp
qed

text \<open>
  C3. When the load succeeds with a module object, \<open>loadChildren\<close> resolves with the
  value of the object's property \<open>AdminPanelModule\<close> and with nothing else: the result
  is that value whatever else the object holds.
\<close>

theorem load_success_resolves_AdminPanelModule:
  "fst (lrm host_remote_options w) = Fulfilled (JObject ex) \<Longrightarrow>
   ex ''AdminPanelModule'' = Some u \<Longrightarrow>
   fst (loadChildren_admin_panel lrm w) = Fulfilled u"
  by (simp add: loadChildren_admin_panel_unfold)

theorem load_success_resolves_AdminPanelModule_witness:
  "fst (federation_loader host_remote_options dev_network) =
     Fulfilled (JObject (source_exports admin_panel_module_ts)) \<and>
   source_exports admin_panel_module_ts ''AdminPanelModule'' = Some (JClass AdminPanelModule) \<and>
   fst (loadChildren_admin_panel federation_loader dev_network) = Fulfilled (JClass AdminPanelModule)"
proof -
  have served: "fst (federation_loader host_remote_options dev_network) =
      Fulfilled (JObject (source_exports admin_panel_module_ts))"
    by (simp add: dev_network_serves_admin)
  have export: "source_exports admin_panel_module_ts ''AdminPanelModule'' =
      Some (JClass AdminPanelModule)"
    by (simp add: source_exports_admin_panel)
  show ?thesis
    using load_success_resolves_AdminPanelModule
        [of federation_loader dev_network "source_exports admin_panel_module_ts"
            "JClass AdminPanelModule"]
      served export
    by simp
qed

text \<open>
  C4. The admin build exposes one key, \<open>./Module\<close>; the file behind it exports one
  name, the class \<open>AdminPanelModule\<close>; that module declares one component,
  \<open>AdminPanelComponent\<close>, and registers one route, the empty path to
  \<open>AdminPanelComponent\<close>.
\<close>

theorem admin_exposes_one_unit:
  "map fst (exposes admin_federation) = [''./Module''] \<and>
   dom admin_exposed = {''./Module''} \<and>
   admin_exposed ''./Module'' = Some (JObject (source_exports admin_panel_module_ts)) \<and>
   dom (source_exports admin_panel_module_ts) = {''AdminPanelModule''} \<and>
   source_exports admin_panel_module_ts ''AdminPanelModule'' = Some (JClass AdminPanelModule) \<and>
   map_option declarations (ng_module_def AdminPanelModule :: 'w ng_module option) =
     Some [AdminPanelComponent] \<and>
   (routes_of_class AdminPanelModule :: 'w route list) =
     [\<lparr> path = '''', component = Some AdminPanelComponent, loadChildren = None \<rparr>]"
proof -
  have keys: "dom admin_exposed = {''./Module''}"
    by (auto simp: admin_exposed_def admin_federation_def dom_def split: if_splits)
  have names: "dom (source_exports admin_panel_module_ts) = {''AdminPanelModule''}"
    by (auto simp: source_exports_admin_panel)
  have unit: "admin_exposed ''./Module'' = Some (JObject (source_exports admin_panel_module_ts))"
    by (simp add: admin_exposed_def admin_federation_def admin_panel_module_ts_def)
  have routes: "(routes_of_class AdminPanelModule :: 'w route list) =
      [\<lparr> path = '''', component = Some AdminPanelComponent, loadChildren = None \<rparr>]"
    by (simp add: routes_of_class_cases admin_panel_routes_def)
  show ?thesis
    using keys names unit routes
    by (simp add: admin_federation_def source_exports_admin_panel AdminPanelModule_metadata_def)
qed

text \<open>
  C5. When the loader fulfils with the module that the admin build exposes under the
  key the host asks for, \<open>loadChildren\<close> resolves with the class \<open>AdminPanelModule\<close>,
  whose route table maps the empty path to \<open>AdminPanelComponent\<close>, and the navigation
  to \<open>admin-panel\<close> puts \<open>AdminPanelComponent\<close> into the outlet, both when the
  dashboard is opened on \<open>admin-panel\<close> and when it is opened on the root and then
  navigates there.
\<close>

theorem admin_path_renders_admin_view:
  fixes lrm :: "'w loader"
  assumes "fst (lrm host_remote_options w) = Fulfilled m"
    and "admin_exposed (exposedModule host_remote_options) = Some m"
  shows "fst (loadChildren_admin_panel lrm w) = Fulfilled (JClass AdminPanelModule) \<and>
         (routes_of_class AdminPanelModule :: 'w route list) =
           [\<lparr> path = '''', component = Some AdminPanelComponent, loadChildren = None \<rparr>] \<and>
         fst (recognize (Suc n) lrm dashboard_routes [''admin-panel''] w) =
           Activated [AdminPanelComponent] \<and>
         outlets (start (Suc n) lrm dashboard_AppModule [''admin-panel''] w) =
           [AdminPanelComponent] \<and>
         outlets (navigate (Suc n) lrm (start (Suc n) lrm dashboard_AppModule [] w)
                   [''admin-panel'']) =
           [AdminPanelComponent]"
proof -
  have m: "m = JObject (source_exports admin_panel_module_ts)"
    using assms(2)
    by (simp add: admin_exposed_def admin_federation_def host_remote_options_def
        admin_panel_module_ts_def)
  have load: "fst (loadChildren_admin_panel lrm w) = Fulfilled (JClass AdminPanelModule)"
    using assms(1) by (simp add: loadChildren_admin_panel_unfold m source_exports_admin_panel)
  have reached: "fst (recognize (Suc n) lrm dashboard_routes [''admin-panel''] w) =
      Activated [AdminPanelComponent]"
    using load by (simp add: recognize_host)
  then have activated:
    "fst (activate (Suc n) lrm (map fresh dashboard_routes) [''admin-panel''] w) =
       Activated [AdminPanelComponent]"
    by (simp add: activate_fresh)
  have opened: "outlets (start (Suc n) lrm dashboard_AppModule [''admin-panel''] w) =
      [AdminPanelComponent]"
    using activated by (simp add: start_dashboard created_dashboard navigate_outlets)
  have later: "outlets (navigate (Suc n) lrm (start (Suc n) lrm dashboard_AppModule [] w)
      [''admin-panel'']) = [AdminPanelComponent]"
    using activated by (simp add: start_dashboard_root navigate_outlets)
  show ?thesis
    using load reached opened later by (simp add: routes_of_class_cases admin_panel_routes_def)
qed

theorem admin_path_renders_admin_view_witness:
  "fst (federation_loader host_remote_options dev_network) =
     Fulfilled (JObject (source_exports admin_panel_module_ts)) \<and>
   admin_exposed (exposedModule host_remote_options) =
     Some (JObject (source_exports admin_panel_module_ts)) \<and>
   fst (recognize 1 federation_loader dashboard_routes [''admin-panel''] dev_network) =
     Activated [AdminPanelComponent] \<and>
   outlets (start 1 federation_loader dashboard_AppModule [''admin-panel''] dev_network) =
     [AdminPanelComponent] \<and>
   outlets (navigate 1 federation_loader (start 1 federation_loader dashboard_AppModule [] dev_network)
             [''admin-panel'']) =
     [AdminPanelComponent]"
proof -
  have served: "fst (federation_loader host_remote_options dev_network) =
      Fulfilled (JObject (source_exports admin_panel_module_ts))"
    by (simp add: dev_network_serves_admin)
  have exposed: "admin_exposed (exposedModule host_remote_options) =
      Some (JObject (source_exports admin_panel_module_ts))"
    by (simp add: admin_exposed_def admin_federation_def host_remote_options_def
        admin_panel_module_ts_def)
  show ?thesis
    using admin_path_renders_admin_view
        [where lrm = federation_loader and w = dev_network
           and m = "JObject (source_exports admin_panel_module_ts)" and n = 0]
      served exposed
    by simp
qed



text \<open>
  C7. Two development servers, the dashboard on port 4200 and the admin application
  on port 4201; every remote entry URL the dashboard names is
  \<open>http://localhost:4201/remoteEntry.js\<close>, the remote entry file of the admin build
  on the admin's port.
\<close>

theorem dev_endpoints_and_remote_entry:
  "length dev_servers = 2 \<and>
   map_of dev_servers Dashboard = Some 4200 \<and>
   map_of dev_servers Admin = Some 4201 \<and>
   set host_remote_entry_urls = {''http://localhost:4201/remoteEntry.js''} \<and>
   map_option (\<lambda>port. dev_server_url port @ ''/'' @ filename admin_federation)
     (map_of dev_servers Admin) = Some ''http://localhost:4201/remoteEntry.js''"
  by (simp add: dev_servers_def host_remote_entry_urls_def host_remote_options_def
      dashboard_remotes_def remote_url_def dev_server_url_def decimal.simps admin_federation_def)

text \<open>
  C8. When the load succeeds with a module object that has no property
  \<open>AdminPanelModule\<close>, the promise of \<open>loadChildren\<close> is fulfilled, with \<open>undefined\<close>.
\<close>

theorem missing_export_fulfils_undefined:
  "fst (lrm host_remote_options w) = Fulfilled (JObject ex) \<Longrightarrow>
   ex ''AdminPanelModule'' = None \<Longrightarrow>
   fst (loadChildren_admin_panel lrm w) = Fulfilled JUndefined"
  by (simp add: loadChildren_admin_panel_unfold)

theorem missing_export_fulfils_undefined_witness:
  "fst (federation_loader host_remote_options renamed_network) =
     Fulfilled (JObject [''AdminModule'' \<mapsto> JClass AdminPanelModule]) \<and>
   [''AdminModule'' \<mapsto> JClass AdminPanelModule] ''AdminPanelModule'' = None \<and>
   fst (loadChildren_admin_panel federation_loader renamed_network) = Fulfilled JUndefined"
proof -
  have served: "fst (federation_loader host_remote_options renamed_network) =
      Fulfilled (JObject [''AdminModule'' \<mapsto> JClass AdminPanelModule])"
    by (simp add: federation_loader_def renamed_network_def host_remote_options_def)
  have missing: "[''AdminModule'' \<mapsto> JClass AdminPanelModule] ''AdminPanelModule'' = None"
    by simp
  show ?thesis
    using missing_export_fulfils_undefined
        [of federation_loader renamed_network "[''AdminModule'' \<mapsto> JClass AdminPanelModule]"]
      served missing
    by simp
qed

text \<open>
  C9. The root module of the admin application gives \<open>forRoot\<close> an empty table; the
  routes of the running admin application are those of \<open>AdminPanelModule\<close>, and the
  only URL it recognises is the empty path, which activates \<open>AdminPanelComponent\<close>.
\<close>

theorem admin_root_table_empty:
  "map fst (forRoot_calls (admin_AppModule :: 'w ng_module)) = [[]] \<and>
   (router_config admin_AppModule :: 'w route list) = routes_of_class AdminPanelModule \<and>
   fst (recognize n lrm (router_config admin_AppModule) segs w) =
     (if segs = [] then Activated [AdminPanelComponent] else NoMatch)"
proof -
  have "map fst (forRoot_calls (admin_AppModule :: 'w ng_module)) = [[]]"
    by (simp add: forRoot_calls_def List.map_filter_def admin_AppModule_def)
  then show ?thesis
    by (simp add: router_config_admin routes_of_class_cases recognize_admin_panel_routes)
qed

text \<open>
  C10. Each of the two root modules bootstraps one component, its \<open>AppComponent\<close>, and
  calls \<open>forRoot\<close> once, with \<open>initialNavigation\<close> set to \<open>enabled\<close>; so each
  application, whatever URL it is opened on, starts with that one component created
  and with the navigation to that URL already made: the dashboard's table has been
  matched against it, with the load that goes with it, and the admin application
  shows \<open>AdminPanelComponent\<close> when opened on its root.
\<close>

theorem root_modules_bootstrap_and_initial_navigation:
  fixes lrm :: "'w loader"
  shows
  "bootstrap (dashboard_AppModule :: 'w ng_module) = [AppComponent Dashboard] \<and>
   bootstrap (admin_AppModule :: 'w ng_module) = [AppComponent Admin] \<and>
   map (initialNavigation \<circ> snd) (forRoot_calls (dashboard_AppModule :: 'w ng_module)) =
     [''enabled''] \<and>
   map (initialNavigation \<circ> snd) (forRoot_calls (admin_AppModule :: 'w ng_module)) =
     [''enabled''] \<and>
   bootstrapped (start n lrm dashboard_AppModule url w) = [AppComponent Dashboard] \<and>
   bootstrapped (start n lrm admin_AppModule url w) = [AppComponent Admin] \<and>
   last_navigation (start n lrm dashboard_AppModule url w) =
     Some (fst (recognize n lrm dashboard_routes url w)) \<and>
   world (start n lrm dashboard_AppModule url w) = snd (recognize n lrm dashboard_routes url w) \<and>
   last_navigation (start n lrm admin_AppModule url w) =
     Some (if url = [] then Activated [AdminPanelComponent] else NoMatch) \<and>
   outlets (start n lrm admin_AppModule [] w) = [AdminPanelComponent]"
proof -
  have declared: "bootstrap (dashboard_AppModule :: 'w ng_module) = [AppComponent Dashboard] \<and>
      bootstrap (admin_AppModule :: 'w ng_module) = [AppComponent Admin] \<and>
      map (initialNavigation \<circ> snd) (forRoot_calls (dashboard_AppModule :: 'w ng_module)) =
        [''enabled''] \<and>
      map (initialNavigation \<circ> snd) (forRoot_calls (admin_AppModule :: 'w ng_module)) =
        [''enabled'']"
    by (simp add: forRoot_calls_def List.map_filter_def dashboard_AppModule_def
        admin_AppModule_def)
  have shell: "bootstrapped (start n lrm dashboard_AppModule url w) = [AppComponent Dashboard] \<and>
      bootstrapped (start n lrm admin_AppModule url w) = [AppComponent Admin]"
    by (simp add: start_dashboard start_admin navigate_bootstrapped created_dashboard
        created_admin)
  have dashboard: "last_navigation (start n lrm dashboard_AppModule url w) =
        Some (fst (recognize n lrm dashboard_routes url w)) \<and>
      world (start n lrm dashboard_AppModule url w) = snd (recognize n lrm dashboard_routes url w)"
    by (simp add: start_dashboard navigate_last navigate_world created_dashboard activate_fresh)
  have admin: "last_navigation (start n lrm admin_AppModule url w) =
        Some (if url = [] then Activated [AdminPanelComponent] else NoMatch) \<and>
      outlets (start n lrm admin_AppModule [] w) = [AdminPanelComponent]"
    by (simp add: start_admin navigate_last navigate_outlets created_admin
        activate_admin_panel_routes)
  show ?thesis
    using declared shell dashboard admin by simp
qed

end
